theory Spec2Isabelle
  imports Complex_Main
begin

section \<open>Floating-point values and errors\<close>

text \<open>
  Array elements are floating-point numbers. The embedding keeps the one special value the
  verification code depends on, not-a-number, and takes every other value as an exact real:
  rounding, overflow and the infinities are not modelled.
\<close>

datatype fval = Num real | NaN

datatype error = ValueError | IndexError | KeyError | AxisError | InvalidIndexError

fun lift1 :: "(real \<Rightarrow> real) \<Rightarrow> fval \<Rightarrow> fval" where
  "lift1 g (Num a) = Num (g a)"
| "lift1 g NaN = NaN"

fun lift2 :: "(real \<Rightarrow> real \<Rightarrow> real) \<Rightarrow> fval \<Rightarrow> fval \<Rightarrow> fval" where
  "lift2 g (Num a) (Num b) = Num (g a b)"
| "lift2 g _ _ = NaN"

definition fsub :: "fval \<Rightarrow> fval \<Rightarrow> fval" where
  "fsub = lift2 (\<lambda>a b. a - b)"

definition fadd :: "fval \<Rightarrow> fval \<Rightarrow> fval" where
  "fadd = lift2 (\<lambda>a b. a + b)"

definition fmul :: "fval \<Rightarrow> fval \<Rightarrow> fval" where
  "fmul = lift2 (\<lambda>a b. a * b)"

definition fabs :: "fval \<Rightarrow> fval" where
  "fabs = lift1 abs"

definition fsquare :: "fval \<Rightarrow> fval" where
  \<comment> \<open>\<open>x ** 2.\<close>\<close>
  "fsquare = lift1 (\<lambda>a. a * a)"

fun fsqrt :: "fval \<Rightarrow> fval" where
  \<comment> \<open>\<open>np.sqrt\<close>: not-a-number below zero\<close>
  "fsqrt (Num a) = (if a < 0 then NaN else Num (sqrt a))"
| "fsqrt NaN = NaN"

fun bind_r :: "error + 'a \<Rightarrow> ('a \<Rightarrow> error + 'b) \<Rightarrow> error + 'b" where
  "bind_r (Inl e) g = Inl e"
| "bind_r (Inr x) g = g x"

fun map_r :: "('a \<Rightarrow> error + 'b) \<Rightarrow> 'a list \<Rightarrow> error + 'b list" where
  \<comment> \<open>a loop appending one result per item; the first exception ends it\<close>
  "map_r g [] = Inr []"
| "map_r g (x # xs) =
     (case g x of Inl e \<Rightarrow> Inl e
      | Inr y \<Rightarrow> (case map_r g xs of Inl e \<Rightarrow> Inl e | Inr ys \<Rightarrow> Inr (y # ys)))"

section \<open>Arrays\<close>

text \<open>
  A numpy array is its shape and its elements in row-major order.
\<close>

datatype ndarray = NDArray (shape: "nat list") (data: "fval list")

definition ndim :: "ndarray \<Rightarrow> nat" where
  "ndim a = length (shape a)"

definition np_map :: "(fval \<Rightarrow> fval) \<Rightarrow> ndarray \<Rightarrow> ndarray" where
  "np_map g a = NDArray (shape a) (map g (data a))"

subsection \<open>Broadcasting\<close>

definition pad_shape :: "nat \<Rightarrow> nat list \<Rightarrow> nat list" where
  "pad_shape r s = replicate (r - length s) 1 @ s"

fun broadcast_dims :: "nat list \<Rightarrow> nat list \<Rightarrow> nat list option" where
  "broadcast_dims [] [] = Some []"
| "broadcast_dims (n # ns) (m # ms) =
     (if n = m \<or> m = 1 then map_option ((#) n) (broadcast_dims ns ms)
      else if n = 1 then map_option ((#) m) (broadcast_dims ns ms)
      else None)"
| "broadcast_dims _ _ = None"

definition broadcast_shapes :: "nat list \<Rightarrow> nat list \<Rightarrow> nat list option" where
  "broadcast_shapes s1 s2 =
     (let r = max (length s1) (length s2)
      in broadcast_dims (pad_shape r s1) (pad_shape r s2))"

fun broadcast_data :: "nat list \<Rightarrow> nat list \<Rightarrow> 'a list \<Rightarrow> 'a list" where
  \<comment> \<open>the elements of an array of the first shape, repeated to fill the second\<close>
  "broadcast_data (n # ns) (m # ms) xs =
     (if n = m
      then concat (map (\<lambda>i. broadcast_data ns ms
                               (take (prod_list ns) (drop (i * prod_list ns) xs))) [0..<m])
      else concat (replicate m (broadcast_data ns ms xs)))"
| "broadcast_data _ _ xs = xs"

definition np_binary :: "(fval \<Rightarrow> fval \<Rightarrow> fval) \<Rightarrow> ndarray \<Rightarrow> ndarray \<Rightarrow> error + ndarray" where
  "np_binary g a b =
     (case broadcast_shapes (shape a) (shape b) of
        None \<Rightarrow> Inl ValueError
      | Some s \<Rightarrow>
          Inr (NDArray s
            (map2 g (broadcast_data (pad_shape (length s) (shape a)) s (data a))
                    (broadcast_data (pad_shape (length s) (shape b)) s (data b)))))"

subsection \<open>Indexing and slicing along the first axis\<close>

definition slice_bound :: "nat \<Rightarrow> int \<Rightarrow> nat" where
  \<comment> \<open>a slice bound of Python: a negative one counts from the end, and both are clipped\<close>
  "slice_bound n k = (if k < 0 then nat (int n + k) else min n (nat k))"

definition slice_from :: "int \<Rightarrow> ndarray \<Rightarrow> error + ndarray" where
  \<comment> \<open>\<open>a[k:]\<close>\<close>
  "slice_from k a =
     (case shape a of
        [] \<Rightarrow> Inl IndexError
      | n # rest \<Rightarrow>
          (let lo = slice_bound n k
           in Inr (NDArray ((n - lo) # rest) (drop (lo * prod_list rest) (data a)))))"

definition slice_to :: "int \<Rightarrow> ndarray \<Rightarrow> error + ndarray" where
  \<comment> \<open>\<open>a[:k]\<close>\<close>
  "slice_to k a =
     (case shape a of
        [] \<Rightarrow> Inl IndexError
      | n # rest \<Rightarrow>
          (let hi = slice_bound n k
           in Inr (NDArray (hi # rest) (take (hi * prod_list rest) (data a)))))"

definition index0 :: "int \<Rightarrow> ndarray \<Rightarrow> error + ndarray" where
  \<comment> \<open>\<open>a[k]\<close>\<close>
  "index0 k a =
     (case shape a of
        [] \<Rightarrow> Inl IndexError
      | n # rest \<Rightarrow>
          (if - int n \<le> k \<and> k < int n
           then (let i = nat (if k < 0 then k + int n else k)
                 in Inr (NDArray rest (take (prod_list rest) (drop (i * prod_list rest) (data a)))))
           else Inl IndexError))"

subsection \<open>Reductions\<close>

fun nums :: "fval list \<Rightarrow> real list" where
  "nums [] = []"
| "nums (Num a # xs) = a # nums xs"
| "nums (NaN # xs) = nums xs"

definition nanmean_list :: "fval list \<Rightarrow> fval" where
  \<comment> \<open>the mean of the numbers of a list; not-a-number when there is none\<close>
  "nanmean_list xs =
     (let ys = nums xs
      in if ys = [] then NaN else Num (sum_list ys / real (length ys)))"

fun indices :: "nat list \<Rightarrow> nat list list" where
  \<comment> \<open>the multi-indices of a shape, in row-major order\<close>
  "indices [] = [[]]"
| "indices (n # ns) = concat (map (\<lambda>i. map ((#) i) (indices ns)) [0..<n])"

fun ravel :: "nat list \<Rightarrow> nat list \<Rightarrow> nat" where
  \<comment> \<open>the position of a multi-index in the row-major data\<close>
  "ravel (n # ns) (i # is) = i * prod_list ns + ravel ns is"
| "ravel _ _ = 0"

definition drop_axes :: "nat list \<Rightarrow> 'a list \<Rightarrow> 'a list" where
  "drop_axes axes xs = map snd (filter (\<lambda>p. fst p \<notin> set axes) (enumerate 0 xs))"

definition reduce_axes :: "(fval list \<Rightarrow> fval) \<Rightarrow> nat list \<Rightarrow> ndarray \<Rightarrow> ndarray" where
  "reduce_axes g axes a =
     NDArray (drop_axes axes (shape a))
       (map (\<lambda>out. g (map (\<lambda>i. data a ! ravel (shape a) i)
                          (filter (\<lambda>i. drop_axes axes i = out) (indices (shape a)))))
            (indices (drop_axes axes (shape a))))"

datatype axis = AxNone | AxInt int | AxTuple "int list"

definition normalize_axis :: "nat \<Rightarrow> int \<Rightarrow> error + nat" where
  "normalize_axis nd k =
     (if - int nd \<le> k \<and> k < int nd
      then Inr (nat (if k < 0 then k + int nd else k))
      else Inl AxisError)"

fun normalize_axes :: "nat \<Rightarrow> axis \<Rightarrow> error + nat list" where
  "normalize_axes nd AxNone = Inr [0..<nd]"
| "normalize_axes nd (AxInt k) = bind_r (normalize_axis nd k) (\<lambda>i. Inr [i])"
| "normalize_axes nd (AxTuple ks) =
     bind_r (map_r (normalize_axis nd) ks)
       (\<lambda>is. if distinct is then Inr is else Inl ValueError)"

definition nanmean :: "ndarray \<Rightarrow> axis \<Rightarrow> error + ndarray" where
  \<comment> \<open>\<open>np.nanmean(a, axis=axis)\<close>\<close>
  "nanmean a ax =
     bind_r (normalize_axes (ndim a) ax) (\<lambda>axes. Inr (reduce_axes nanmean_list axes a))"

definition np_array :: "ndarray list \<Rightarrow> error + ndarray" where
  \<comment> \<open>\<open>np.array(me)\<close> of a list of arrays: stacked when they have one shape, refused
      otherwise (as numpy does from version 1.24 on)\<close>
  "np_array me =
     (case me of
        [] \<Rightarrow> Inr (NDArray [0] [])
      | a # _ \<Rightarrow>
          (if list_all (\<lambda>b. shape b = shape a) me
           then Inr (NDArray (length me # shape a) (concat (map data me)))
           else Inl ValueError))"

section \<open>Error metrics\<close>

definition methods :: "string list" where
  "methods = [''mse'', ''mae'', ''rmse'']"

definition reduce_error :: "string \<Rightarrow> axis \<Rightarrow> ndarray \<Rightarrow> ndarray \<Rightarrow> error + ndarray" where
  \<comment> \<open>the \<open>if method == ...\<close> chain that the metric functions share: the mean of the
      squared or absolute difference of \<open>a\<close> and \<open>b\<close>, or its square root. The last
      branch is never reached: every caller has checked the method before\<close>
  "reduce_error method ax a b =
     (if method = ''mse''
      then bind_r (np_binary fsub a b) (\<lambda>d. nanmean (np_map fsquare d) ax)
      else if method = ''mae''
      then bind_r (np_binary fsub a b) (\<lambda>d. nanmean (np_map fabs d) ax)
      else if method = ''rmse''
      then bind_r (np_binary fsub a b)
             (\<lambda>d. bind_r (nanmean (np_map fsquare d) ax) (\<lambda>m. Inr (np_map fsqrt m)))
      else Inl ValueError)"

definition forecast_error :: "ndarray \<Rightarrow> ndarray \<Rightarrow> string \<Rightarrow> axis \<Rightarrow> error + ndarray" where
  "forecast_error forecast valid method ax =
     (if method \<notin> set methods then Inl ValueError
      else case shape forecast of
        [] \<Rightarrow> Inl IndexError
      | n_f # _ \<Rightarrow>
          (if length (shape forecast) = length (shape valid)
           then reduce_error method
                  (case ax of AxNone \<Rightarrow> AxTuple (map int [1..<length (shape valid)]) | _ \<Rightarrow> ax)
                  valid forecast
           else case shape valid of
             [] \<Rightarrow> Inl IndexError
           | n_val # _ \<Rightarrow>
               bind_r
                 (map_r (\<lambda>f. bind_r (slice_from (int f) valid)
                          (\<lambda>v. bind_r (bind_r (index0 (int f) forecast)
                                         (slice_to (int n_val - int f)))
                                  (\<lambda>fc. reduce_error method ax v fc)))
                    [0..<n_f])
                 np_array))"

definition persistence_error ::
  "ndarray \<Rightarrow> ndarray \<Rightarrow> int \<Rightarrow> string \<Rightarrow> axis \<Rightarrow> error + ndarray" where
  "persistence_error predictors valid n_fhour method ax =
     (if method \<notin> set methods then Inl ValueError
      else case shape valid of
        [] \<Rightarrow> Inl IndexError
      | n_f # _ \<Rightarrow>
          bind_r
            (map_r (\<lambda>f. bind_r (slice_from (int f) valid)
                     (\<lambda>v. bind_r (slice_to (int n_f - int f) predictors)
                             (\<lambda>p. reduce_error method ax v p)))
               [0..<nat n_fhour])
            np_array)"

definition climo_error :: "ndarray \<Rightarrow> int \<Rightarrow> string \<Rightarrow> axis \<Rightarrow> error + ndarray" where
  "climo_error valid n_fhour method ax =
     (if method \<notin> set methods then Inl ValueError
      else case shape valid of
        [] \<Rightarrow> Inl IndexError
      | n_f # _ \<Rightarrow>
          bind_r
            (map_r (\<lambda>f. bind_r (slice_to (int n_f - int f) valid)
                     (\<lambda>v. bind_r (nanmean valid (AxInt 0))
                             (\<lambda>c. reduce_error method ax v c)))
               [0..<nat n_fhour])
            np_array)"

subsection \<open>Month-aware climatology\<close>

text \<open>
  A labelled array with a time (or sample) dimension first: the coordinate values, the
  sizes of the other dimensions, and one flattened field for each time. The calendar month
  of a coordinate value is the library's; the functions take it as the parameter
  \<open>month_of\<close>.
\<close>

record data_array =
  da_time :: "int list"
  da_grid :: "nat list"
  da_fields :: "fval list list"

definition field_mean :: "nat \<Rightarrow> fval list list \<Rightarrow> fval list" where
  \<comment> \<open>the mean over time of each cell, skipping not-a-number\<close>
  "field_mean n fs = map (\<lambda>c. nanmean_list (map (\<lambda>fld. fld ! c) fs)) [0..<n]"

definition monthly_mean :: "(int \<Rightarrow> nat) \<Rightarrow> data_array \<Rightarrow> nat \<Rightarrow> fval list" where
  \<comment> \<open>\<open>da.groupby('time.month').mean('time')\<close>, at one month\<close>
  "monthly_mean month_of da m =
     field_mean (prod_list (da_grid da))
       (map snd (filter (\<lambda>p. month_of (fst p) = m) (zip (da_time da) (da_fields da))))"

definition sel_times :: "data_array \<Rightarrow> int list \<Rightarrow> error + (int \<times> fval list) list" where
  \<comment> \<open>\<open>da.sel(time=val_set)\<close>: every label has to be in the index, and the index has
      to be free of repeated labels\<close>
  "sel_times da val_set =
     (if \<not> distinct (da_time da) then Inl InvalidIndexError
      else map_r (\<lambda>t. case map_of (zip (da_time da) (da_fields da)) t of
                         None \<Rightarrow> Inl KeyError
                       | Some fld \<Rightarrow> Inr (t, fld)) val_set)"

datatype climo_value = Scalar fval | Repeated "fval list"

definition monthly_climo_error ::
  "(int \<Rightarrow> nat) \<Rightarrow> data_array \<Rightarrow> int list \<Rightarrow> int option \<Rightarrow> string \<Rightarrow> bool
     \<Rightarrow> error + climo_value \<times> (fval list list) option" where
  "monthly_climo_error month_of da val_set n_fhour method return_da =
     (if method \<notin> set methods then Inl ValueError
      else bind_r (sel_times da val_set) (\<lambda>sel.
        let anomaly = map (\<lambda>(t, fld). map2 fsub fld (monthly_mean month_of da (month_of t))) sel;
            me = (if method = ''mse'' then nanmean_list (map fsquare (concat anomaly))
                  else if method = ''mae'' then nanmean_list (map fabs (concat anomaly))
                  else fsqrt (nanmean_list (map fsquare (concat anomaly))));
            res = (case n_fhour of None \<Rightarrow> Scalar me
                   | Some n \<Rightarrow> Repeated (replicate (nat n) me))
        in Inr (res, if return_da then Some anomaly else None)))"

section \<open>Verification builder\<close>

text \<open>
  Time stamps are counted in nanoseconds, as \<open>datetime64[ns]\<close> does. A dataset built by
  \<open>data_to_series\<close> has predictors with the dimensions (sample, varlev, lat, lon); one
  built by \<open>data_to_samples\<close> has targets with the dimensions
  (sample, time_step, varlev, lat, lon). The fields over (varlev, lat, lon) are kept
  flattened, with their shape in \<open>grid\<close>.
\<close>

definition hour_ns :: int where
  "hour_ns = 3600000000000"

record series_ds =
  sample :: "int list"
  grid :: "nat list"
  predictors :: "fval list list"

record samples_ds =
  w_sample :: "int list"
  w_grid :: "nat list"
  w_time_step :: nat
  w_targets :: "fval list list list"

record verification =
  f_hour :: "int list"
  v_time :: "int list"
  v_grid :: "nat list"
  v_values :: "fval list list list"

definition np_arange :: "int \<Rightarrow> int \<Rightarrow> int \<Rightarrow> int list" where
  \<comment> \<open>\<open>np.arange(start, stop, step)\<close> for a positive step\<close>
  "np_arange start stop step =
     map (\<lambda>k. start + int k * step) [0..<nat ((stop - start + step - 1) div step)]"

definition date_range :: "int \<Rightarrow> int \<Rightarrow> int \<Rightarrow> int list" where
  \<comment> \<open>\<open>pd.date_range(start, end, freq)\<close>: from \<open>start\<close> in steps, up to \<open>end\<close> included\<close>
  "date_range start end step =
     map (\<lambda>k. start + int k * step) [0..<nat ((end - start) div step + 1)]"

definition reindex ::
  "int list \<Rightarrow> fval list list \<Rightarrow> nat list \<Rightarrow> int list \<Rightarrow> error + fval list list" where
  \<comment> \<open>\<open>reindex(sample=..., method=None)\<close>: exact matches only, a label that the index
      lacks gives a field of not-a-number; an index with a repeated label is refused\<close>
  "reindex idx flds g req =
     (if \<not> distinct idx then Inl ValueError
      else Inr (map (\<lambda>t. case map_of (zip idx flds) t of
                            None \<Rightarrow> replicate (prod_list g) NaN
                          | Some fld \<Rightarrow> fld) req))"

definition assign_column ::
  "nat list \<Rightarrow> nat list \<Rightarrow> nat \<Rightarrow> fval list list \<Rightarrow> fval list list list
     \<Rightarrow> error + fval list list list" where
  \<comment> \<open>\<open>verification[:, d] = block\<close>: the block has one field for each lead step, on the
      grid of the target. A block on another grid is refused here; numpy would still take
      one that broadcasts to the target, which the auxiliary store, having the variables,
      levels, latitudes and longitudes of the validation set, never needs\<close>
  "assign_column g g_block d block ver =
     (if g_block \<noteq> g \<or> length block \<noteq> length ver then Inl ValueError
      else Inr (map2 (\<lambda>row fld. row[d := fld]) ver block))"

fun fill_columns ::
  "(int \<Rightarrow> error + fval list list) \<Rightarrow> nat list \<Rightarrow> nat list \<Rightarrow> (nat \<times> int) list
     \<Rightarrow> fval list list list \<Rightarrow> error + fval list list list" where
  \<comment> \<open>the loop \<open>for d, date in enumerate(ds.sample.values)\<close>\<close>
  "fill_columns blk g g_block [] ver = Inr ver"
| "fill_columns blk g g_block ((d, date) # rest) ver =
     bind_r (blk date) (\<lambda>block.
       bind_r (assign_column g g_block d block ver) (fill_columns blk g g_block rest))"

definition verification_from_series ::
  "series_ds \<Rightarrow> series_ds option \<Rightarrow> int \<Rightarrow> int \<Rightarrow> error + verification" where
  "verification_from_series ds all_ds forecast_steps dt =
     (if forecast_steps < 1 then Inl ValueError
      else if dt < 1 then Inl ValueError
      else
        let hours = np_arange dt (dt * forecast_steps + 1) dt;
            ver = replicate (nat forecast_steps)
                    (replicate (length (sample ds)) (replicate (prod_list (grid ds)) NaN));
            valid_da = (case all_ds of Some a \<Rightarrow> a | None \<Rightarrow> ds)
        in bind_r
             (fill_columns
                (\<lambda>date. reindex (sample valid_da) (predictors valid_da) (grid valid_da)
                           (date_range (date + dt * hour_ns)
                              (date + dt * forecast_steps * hour_ns) (dt * hour_ns)))
                (grid ds) (grid valid_da) (enumerate 0 (sample ds)) ver)
             (\<lambda>vals. Inr \<lparr>f_hour = hours, v_time = sample ds, v_grid = grid ds,
                            v_values = vals\<rparr>))"

definition isel_first :: "samples_ds \<Rightarrow> error + fval list list" where
  \<comment> \<open>\<open>targets.isel(time_step=0)\<close>\<close>
  "isel_first a =
     (if w_time_step a = 0 then Inl IndexError else Inr (map (\<lambda>w. w ! 0) (w_targets a)))"

definition verification_from_samples ::
  "samples_ds \<Rightarrow> samples_ds option \<Rightarrow> int \<Rightarrow> int \<Rightarrow> error + verification" where
  "verification_from_samples ds all_ds forecast_steps dt =
     (if forecast_steps < 1 then Inl ValueError
      else if dt < 1 then Inl ValueError
      else
        let hours = np_arange dt (dt * forecast_steps + 1) dt;
            ver = replicate (nat forecast_steps)
                    (replicate (length (w_sample ds)) (replicate (prod_list (w_grid ds)) NaN));
            src = (case all_ds of Some a \<Rightarrow> a | None \<Rightarrow> ds)
        in bind_r (isel_first src) (\<lambda>valid_da.
             bind_r
               (fill_columns
                  (\<lambda>date. reindex (w_sample src) valid_da (w_grid src)
                             (date_range date
                                (date + dt * (forecast_steps - 1) * hour_ns) (dt * hour_ns)))
                  (w_grid ds) (w_grid src) (enumerate 0 (w_sample ds)) ver)
               (\<lambda>vals. Inr \<lparr>f_hour = hours, v_time = w_sample ds, v_grid = w_grid ds,
                              v_values = vals\<rparr>)))"

section \<open>Insolation\<close>

record timestamp =
  year :: int
  month :: nat
  day :: nat
  hour :: nat
  minute :: nat
  second :: real

definition is_leap :: "int \<Rightarrow> bool" where
  "is_leap y = (y mod 4 = 0 \<and> (y mod 100 \<noteq> 0 \<or> y mod 400 = 0))"

definition days_before_month :: "int \<Rightarrow> nat \<Rightarrow> nat" where
  "days_before_month y m =
     sum_list (take (m - 1)
       [31, if is_leap y then 29 else 28, 31, 30, 31, 30, 31, 31, 30, 31, 30, 31])"

definition day_of_year :: "timestamp \<Rightarrow> real" where
  \<comment> \<open>the time since the first of January of the date's year, in days\<close>
  "day_of_year date =
     (real ((days_before_month (year date) (month date) + (day date - 1)) * 86400
            + hour date * 3600 + minute date * 60) + second date) / 3600 / 24"

definition eps :: real where
  "eps = 23.4441 * pi / 180"

definition ecc :: real where
  "ecc = 0.016715"

definition om :: real where
  "om = 282.7 * pi / 180"

definition beta :: real where
  "beta = sqrt (1 - ecc ^ 2)"

definition lambda_m0 :: real where
  "lambda_m0 = ecc * (1 + beta) * sin om"

definition lambda_m :: "real \<Rightarrow> real" where
  "lambda_m d = lambda_m0 + 2 * pi * (d - 80.5) / 365"

definition lambda :: "real \<Rightarrow> real" where
  \<comment> \<open>the longitude of the earth relative to the orbit, for a day of the year\<close>
  "lambda d = lambda_m d + 2 * ecc * sin (lambda_m d - om)"

definition dec :: "real \<Rightarrow> real" where
  \<comment> \<open>the solar declination\<close>
  "dec d = arcsin (sin eps * sin (lambda d))"

definition rho :: "real \<Rightarrow> real" where
  \<comment> \<open>the distance\<close>
  "rho d = (1 - ecc ^ 2) / (1 + ecc * cos (lambda d - om))"

definition col3 :: "real list \<Rightarrow> ndarray" where
  \<comment> \<open>\<open>x[:, None, None]\<close> of a one-dimensional array\<close>
  "col3 xs = NDArray [length xs, 1, 1] (map Num xs)"

definition expand_front :: "ndarray \<Rightarrow> ndarray" where
  \<comment> \<open>\<open>a[None, ...]\<close>\<close>
  "expand_front a = NDArray (1 # shape a) (data a)"

definition meshgrid :: "ndarray \<Rightarrow> ndarray \<Rightarrow> ndarray \<times> ndarray" where
  \<comment> \<open>\<open>np.meshgrid(x, y)\<close> of one-dimensional arrays: two new arrays of shape
      (len(y), len(x))\<close>
  "meshgrid x y =
     (NDArray [length (data y), length (data x)] (concat (replicate (length (data y)) (data x))),
      NDArray [length (data y), length (data x)]
        (concat (map (replicate (length (data x))) (data y))))"

fun clamp0 :: "fval \<Rightarrow> fval" where
  \<comment> \<open>\<open>sol[sol < 0.] = 0.\<close>, for one element\<close>
  "clamp0 (Num a) = (if a < 0 then Num 0 else Num a)"
| "clamp0 NaN = NaN"

text \<open>
  The arguments \<open>lat\<close> and \<open>lon\<close> are references to arrays of the caller: the store
  maps a reference to the array it holds, and the function returns the store it leaves
  behind. The two shape checks are \<open>assert\<close> statements whose failure is turned into a
  \<open>ValueError\<close>; they are taken as active. The conversion of the result to single
  precision is not modelled.
\<close>

definition insolation ::
  "(nat \<Rightarrow> ndarray) \<Rightarrow> timestamp list \<Rightarrow> nat \<Rightarrow> nat \<Rightarrow> real
     \<Rightarrow> (error + ndarray) \<times> (nat \<Rightarrow> ndarray)" where
  "insolation hp dates lat_p lon_p S =
     (if ndim (hp lat_p) \<noteq> ndim (hp lon_p) then (Inl ValueError, hp)
      else if ndim (hp lat_p) = 2 \<and> shape (hp lat_p) \<noteq> shape (hp lon_p)
      then (Inl ValueError, hp)
      else
        let fresh = (ndim (hp lat_p) = 1);
            lon = (if fresh then fst (meshgrid (hp lon_p) (hp lat_p)) else hp lon_p);
            lat = (if fresh then snd (meshgrid (hp lon_p) (hp lat_p)) else hp lat_p);
            days = map day_of_year dates
        in case bind_r (np_binary fadd (col3 days) (np_map (lift1 (\<lambda>x. x / 360)) lon))
                  (\<lambda>a. Inr (np_map (lift1 (\<lambda>x. 2 * pi * x)) a)) of
             Inl e \<Rightarrow> (Inl e, hp)
           | Inr h \<Rightarrow>
               (let lat' = np_map (lift1 (\<lambda>x. x * (pi / 180))) lat;
                    hp' = (if fresh then hp else hp(lat_p := lat'))
                in (bind_r (np_binary fmul (np_map (lift1 sin) (expand_front lat'))
                              (np_map (lift1 sin) (col3 (map dec days)))) (\<lambda>a.
                    bind_r (np_binary fmul (np_map (lift1 cos) (expand_front lat'))
                              (np_map (lift1 cos) (col3 (map dec days)))) (\<lambda>b.
                    bind_r (np_binary fmul b (np_map (lift1 cos) h)) (\<lambda>c.
                    bind_r (np_binary fsub a c) (\<lambda>d.
                    bind_r (np_binary fmul (np_map (lift1 (\<lambda>x. S * x)) d)
                              (np_map (lift1 (\<lambda>r. 1 / r ^ 2)) (col3 (map rho days)))) (\<lambda>sol.
                    Inr (np_map clamp0 sol)))))), hp')))"

section \<open>Comparisons used in the statements\<close>




text \<open>
  The metric as the specification words it, on the pairs of a valid and a forecast value that
  are both numbers: the mean of the squared or absolute differences, or the square root of
  the former; not-a-number when no pair is left.
\<close>

fun both_nums :: "(fval \<times> fval) list \<Rightarrow> (real \<times> real) list" where
  "both_nums [] = []"
| "both_nums ((Num a, Num b) # ps) = (a, b) # both_nums ps"
| "both_nums (_ # ps) = both_nums ps"

definition plain_metric :: "string \<Rightarrow> (real \<times> real) list \<Rightarrow> fval" where
  "plain_metric method ps =
     (if ps = [] then NaN
      else if method = ''mse''
      then Num (sum_list (map (\<lambda>(v, f). (v - f) * (v - f)) ps) / real (length ps))
      else if method = ''mae''
      then Num (sum_list (map (\<lambda>(v, f). \<bar>v - f\<bar>) ps) / real (length ps))
      else Num (sqrt (sum_list (map (\<lambda>(v, f). (v - f) * (v - f)) ps) / real (length ps))))"







section \<open>Theorems\<close>

subsection \<open>The concrete scenario of the error metric\<close>

lemma upt_4: "[0..<4] = [0, 1, 2, 3]"
  by (simp add: upt_rec)

lemma upt_1_2: "[1..<2] = [1]"
  by (simp add: upt_rec)

text \<open>
  C1, as stated: \<open>forecast_error\<close> with \<open>method='mae'\<close> on a forecast of shape (4, 1)
  with the values 1, 2, 3, 4 and a valid array of shape (5, 1) with the values 1, 1, 3, 3, 5
  would return 0, 1, 0, 1. It does not: both arrays have two dimensions, so the valid array
  is subtracted from the forecast as a whole, with no alignment, and the first axes 5 and 4
  do not broadcast.
\<close>

theorem forecast_error_scenario_raises:
  "forecast_error (NDArray [4, 1] [Num 1, Num 2, Num 3, Num 4])
     (NDArray [5, 1] [Num 1, Num 1, Num 3, Num 3, Num 5]) ''mae'' AxNone = Inl ValueError
   \<and> forecast_error (NDArray [4, 1] [Num 1, Num 2, Num 3, Num 4])
       (NDArray [5, 1] [Num 1, Num 1, Num 3, Num 3, Num 5]) ''mae'' AxNone
     \<noteq> Inr (NDArray [4] [Num 0, Num 1, Num 0, Num 1])"
  by (simp add: forecast_error_def methods_def reduce_error_def np_binary_def
      broadcast_shapes_def pad_shape_def)

text \<open>
  C1, amended: once the caller has aligned the valid array by one step (\<open>valid[1:]\<close>, of
  shape (4, 1) with the values 1, 3, 3, 5), \<open>forecast_error\<close> with \<open>method='mae'\<close>
  returns 0, 1, 0, 1: lead step \<open>f\<close> of the forecast against row \<open>f\<close> of the aligned
  array.
\<close>

theorem forecast_error_scenario_aligned:
  "slice_from 1 (NDArray [5, 1] [Num 1, Num 1, Num 3, Num 3, Num 5])
     = Inr (NDArray [4, 1] [Num 1, Num 3, Num 3, Num 5])
   \<and> forecast_error (NDArray [4, 1] [Num 1, Num 2, Num 3, Num 4])
       (NDArray [4, 1] [Num 1, Num 3, Num 3, Num 5]) ''mae'' AxNone
     = Inr (NDArray [4] [Num 0, Num 1, Num 0, Num 1])"
  by (simp add: slice_from_def slice_bound_def forecast_error_def methods_def reduce_error_def
      np_binary_def broadcast_shapes_def pad_shape_def upt_4 upt_1_2 nanmean_def ndim_def
      normalize_axis_def reduce_axes_def drop_axes_def np_map_def nanmean_list_def fsub_def
      fabs_def)


subsection \<open>Multi-indices and reductions\<close>

lemma length_indices: "length (indices s) = prod_list s"
proof (induction s)
  case Nil show ?case by simp
next
  case (Cons n s)
  have "length (concat (map (\<lambda>i. map ((#) i) (indices s)) [0..<n])) = n * prod_list s"
    by (simp add: length_concat comp_def Cons.IH sum_list_triv)
  then show ?case by simp
qed

lemma length_in_indices: "i \<in> set (indices s) \<Longrightarrow> length i = length s"
  by (induction s arbitrary: i) auto


lemma map_add_upt: "map (\<lambda>j. k + j) [0..<m] = [k..<k + m]"
  by (induction m) simp_all

lemma concat_blocks_upt: "concat (map (\<lambda>i. [i * m..<i * m + m]) [0..<n]) = [0..<n * m]"
proof (induction n)
  case 0 show ?case by simp
next
  case (Suc n)
  have "[0..<Suc n * m] = [0..<n * m] @ [n * m..<n * m + m]"
    by (metis add.commute le_add1 mult_Suc upt_add_eq_append zero_le)
  then show ?case using Suc by simp
qed

lemma map_ravel_indices: "map (ravel s) (indices s) = [0..<prod_list s]"
proof (induction s)
  case Nil show ?case by simp
next
  case (Cons n s)
  have "map (ravel (n # s)) (indices (n # s))
        = concat (map (\<lambda>i. map (\<lambda>j. i * prod_list s + j) (map (ravel s) (indices s))) [0..<n])"
    by (simp add: map_concat comp_def)
  also have "\<dots> = concat (map (\<lambda>i. [i * prod_list s..<i * prod_list s + prod_list s]) [0..<n])"
    by (simp add: Cons.IH map_add_upt)
  also have "\<dots> = [0..<n * prod_list s]" by (rule concat_blocks_upt)
  finally show ?case by simp
qed

lemma gather_all: "length xs = prod_list s \<Longrightarrow> map (\<lambda>i. xs ! ravel s i) (indices s) = xs"
proof -
  assume l: "length xs = prod_list s"
  have "map (\<lambda>i. xs ! ravel s i) (indices s) = map ((!) xs) (map (ravel s) (indices s))"
    by (simp add: comp_def)
  also have "\<dots> = xs" using map_nth[of xs] by (simp add: map_ravel_indices l)
  finally show ?thesis .
qed

lemma drop_axes_all: "drop_axes [0..<length xs] xs = []"
proof -
  have "\<forall>p \<in> set (enumerate 0 xs). fst p \<in> set [0..<length xs]"
    by (auto simp: in_set_enumerate_eq)
  then have "filter (\<lambda>p. fst p \<notin> set [0..<length xs]) (enumerate 0 xs) = []"
    by (simp add: filter_empty_conv)
  then show ?thesis unfolding drop_axes_def by simp
qed

lemma reduce_axes_all:
  assumes "length (data a) = prod_list (shape a)"
  shows "reduce_axes g [0..<length (shape a)] a = NDArray [] [g (data a)]"
proof -
  have "filter (\<lambda>i. drop_axes [0..<length (shape a)] i = []) (indices (shape a)) = indices (shape a)"
  proof (rule filter_True, rule ballI)
    fix i assume "i \<in> set (indices (shape a))"
    then have "length i = length (shape a)" by (rule length_in_indices)
    then show "drop_axes [0..<length (shape a)] i = []" using drop_axes_all[of i] by simp
  qed
  then show ?thesis using assms by (simp add: reduce_axes_def drop_axes_all gather_all)
qed

lemma nanmean_None:
  "length (data a) = prod_list (shape a) \<Longrightarrow> nanmean a AxNone = Inr (NDArray [] [nanmean_list (data a)])"
  by (simp add: nanmean_def ndim_def reduce_axes_all)

subsection \<open>Arrays of one shape, and the reduction of each row\<close>

lemma pad_shape_same: "pad_shape (length s) s = s"
  by (simp add: pad_shape_def)

lemma broadcast_dims_same: "broadcast_dims s s = Some s"
  by (induction s) simp_all

lemma broadcast_shapes_same: "broadcast_shapes s s = Some s"
  by (simp add: broadcast_shapes_def pad_shape_same broadcast_dims_same)

lemma concat_chunks:
  "length xs = n * m \<Longrightarrow> concat (map (\<lambda>i. take m (drop (i * m) xs)) [0..<n]) = xs"
proof (induction n arbitrary: xs rule: nat.induct)
  case zero then show ?case by simp
next
  case (Suc n)
  let ?ys = "take (n * m) xs"
  have l: "length ?ys = n * m" using Suc.prems by simp
  have "concat (map (\<lambda>i. take m (drop (i * m) xs)) [0..<n])
        = concat (map (\<lambda>i. take m (drop (i * m) ?ys)) [0..<n])"
  proof -
    have "\<And>i. i < n \<Longrightarrow> take m (drop (i * m) xs) = take m (drop (i * m) ?ys)"
    proof -
      fix i assume i: "i < n"
      then have "Suc i * m \<le> n * m" by (simp add: Suc_leI mult_le_mono1 del: mult_Suc)
      then have "i * m + m \<le> n * m" by simp
      then show "take m (drop (i * m) xs) = take m (drop (i * m) ?ys)"
        by (simp add: drop_take min_def)
    qed
    then show ?thesis by (intro arg_cong[where f = concat] map_cong) auto
  qed
  also have "\<dots> = ?ys" using Suc.IH[OF l] .
  finally have a: "concat (map (\<lambda>i. take m (drop (i * m) xs)) [0..<n]) = ?ys" .
  have b: "take m (drop (n * m) xs) = drop (n * m) xs" using Suc.prems by simp
  show ?case using a b by simp
qed

lemma chunk_length:
  "length xs = n * m \<Longrightarrow> i < n \<Longrightarrow> length (take m (drop (i * m) xs)) = m"
proof -
  assume l: "length xs = n * m" and i: "i < n"
  then have "Suc i * m \<le> n * m" by (simp add: Suc_leI mult_le_mono1 del: mult_Suc)
  then show ?thesis using l by simp
qed

lemma broadcast_data_same: "length xs = prod_list s \<Longrightarrow> broadcast_data s s xs = xs"
proof (induction s arbitrary: xs)
  case Nil then show ?case by simp
next
  case (Cons n s)
  have l: "length xs = n * prod_list s" using Cons.prems by simp
  have "concat (map (\<lambda>i. broadcast_data s s (take (prod_list s) (drop (i * prod_list s) xs))) [0..<n])
        = concat (map (\<lambda>i. take (prod_list s) (drop (i * prod_list s) xs)) [0..<n])"
    by (intro arg_cong[where f = concat] map_cong refl Cons.IH chunk_length[OF l]) simp
  then show ?case using concat_chunks[OF l] by simp
qed

lemma np_binary_same:
  assumes "shape a = shape b" "length (data a) = prod_list (shape a)"
    "length (data b) = prod_list (shape b)"
  shows "np_binary g a b = Inr (NDArray (shape a) (map2 g (data a) (data b)))"
  using assms by (simp add: np_binary_def broadcast_shapes_same pad_shape_same broadcast_data_same)









subsection \<open>The persistence baseline against an increasing series\<close>



















subsection \<open>Not-a-number in the reductions\<close>

lemma nums_lift1_sub:
  "nums (map (lift1 g) (map2 fsub vs fs)) = map (\<lambda>(v, f). g (v - f)) (both_nums (zip vs fs))"
proof (induction vs arbitrary: fs)
  case Nil show ?case by simp
next
  case (Cons v vs)
  show ?case
  proof (cases fs)
    case Nil then show ?thesis by simp
  next
    case (Cons f fs')
    then show ?thesis using Cons.IH[of fs']
      by (cases v; cases f) (simp_all add: fsub_def)
  qed
qed

lemma sum_squares_nonneg: "0 \<le> sum_list (map (\<lambda>(v::real, f). (v - f) * (v - f)) ps)"
  by (induction ps) auto

lemma cell_mse:
  "nanmean_list (map fsquare (map2 fsub vs fs)) = plain_metric ''mse'' (both_nums (zip vs fs))"
proof -
  have n: "nums (map fsquare (map2 fsub vs fs))
           = map (\<lambda>(v, f). (v - f) * (v - f)) (both_nums (zip vs fs))"
    unfolding fsquare_def by (rule nums_lift1_sub)
  show ?thesis unfolding nanmean_list_def n by (simp add: plain_metric_def)
qed

lemma cell_mae:
  "nanmean_list (map fabs (map2 fsub vs fs)) = plain_metric ''mae'' (both_nums (zip vs fs))"
proof -
  have n: "nums (map fabs (map2 fsub vs fs))
           = map (\<lambda>(v, f). \<bar>v - f\<bar>) (both_nums (zip vs fs))"
    unfolding fabs_def by (rule nums_lift1_sub)
  show ?thesis unfolding nanmean_list_def n by (simp add: plain_metric_def)
qed

lemma cell_rmse:
  "fsqrt (nanmean_list (map fsquare (map2 fsub vs fs))) = plain_metric ''rmse'' (both_nums (zip vs fs))"
proof -
  have n: "nums (map fsquare (map2 fsub vs fs))
           = map (\<lambda>(v, f). (v - f) * (v - f)) (both_nums (zip vs fs))"
    unfolding fsquare_def by (rule nums_lift1_sub)
  have "\<not> sum_list (map (\<lambda>(v::real, f). (v - f) * (v - f)) (both_nums (zip vs fs)))
          / real (length (both_nums (zip vs fs))) < 0"
    using sum_squares_nonneg[of "both_nums (zip vs fs)"] by (simp add: not_less)
  then show ?thesis unfolding nanmean_list_def n by (simp add: plain_metric_def)
qed

lemma row_of_map2:
  "take m (drop k (map g (map2 h xs ys))) = map g (map2 h (take m (drop k xs)) (take m (drop k ys)))"
  by (simp add: take_map drop_map take_zip drop_zip)




lemma reduce_error_flat:
  assumes "method \<in> set methods" "shape a = shape b"
    "length (data a) = prod_list (shape a)" "length (data b) = prod_list (shape b)"
  shows "reduce_error method AxNone a b
         = Inr (NDArray [] [plain_metric method (both_nums (zip (data a) (data b)))])"
proof -
  have sub: "np_binary fsub a b = Inr (NDArray (shape a) (map2 fsub (data a) (data b)))"
    using np_binary_same[of a b fsub] assms by simp
  have flat: "\<And>g. nanmean (np_map g (NDArray (shape a) (map2 fsub (data a) (data b)))) AxNone
        = Inr (NDArray [] [nanmean_list (map g (map2 fsub (data a) (data b)))])"
  proof -
    fix g
    show "nanmean (np_map g (NDArray (shape a) (map2 fsub (data a) (data b)))) AxNone
        = Inr (NDArray [] [nanmean_list (map g (map2 fsub (data a) (data b)))])"
      using nanmean_None[of "np_map g (NDArray (shape a) (map2 fsub (data a) (data b)))"] assms(2,3,4)
      by (simp add: np_map_def del: map_map)
  qed
  consider "method = ''mse''" | "method = ''mae''" | "method = ''rmse''"
    using assms(1) by (auto simp: methods_def)
  then show ?thesis
  proof cases
    case 1 then show ?thesis by (simp add: reduce_error_def sub flat cell_mse del: map_map)
  next
    case 2 then show ?thesis by (simp add: reduce_error_def sub flat cell_mae del: map_map)
  next
    case 3
    have sq: "\<And>x. np_map fsqrt (NDArray [] [x]) = NDArray [] [fsqrt x]"
      by (simp add: np_map_def)
    show ?thesis using 3
      by (simp add: reduce_error_def sub flat sq cell_rmse del: map_map)
  qed
qed



lemma upt_2': "[0..<2] = [0, 1]"
  by (simp add: upt_rec)



subsection \<open>The shifted comparison against a plain time series\<close>

lemma bind_r_Inr: "bind_r x g = Inr y \<Longrightarrow> \<exists>v. x = Inr v \<and> g v = Inr y"
  by (cases x) simp_all

lemma map_r_Inr_nth:
  "map_r g xs = Inr ys \<Longrightarrow> length ys = length xs \<and> (\<forall>i<length xs. g (xs ! i) = Inr (ys ! i))"
proof (induction xs arbitrary: ys)
  case Nil then show ?case by simp
next
  case (Cons x xs)
  then obtain y zs where y: "g x = Inr y" and zs: "map_r g xs = Inr zs" and ys: "ys = y # zs"
    by (auto split: sum.splits)
  show ?case using Cons.IH[OF zs] y ys by (auto simp: nth_Cons')
qed

lemma reduce_axes_wf: "length (data (reduce_axes g axes a)) = prod_list (shape (reduce_axes g axes a))"
  by (simp add: reduce_axes_def length_indices)

lemma nanmean_wf: "nanmean a ax = Inr r \<Longrightarrow> length (data r) = prod_list (shape r)"
  unfolding nanmean_def using reduce_axes_wf by (auto dest!: bind_r_Inr)

lemma reduce_error_wf:
  "reduce_error method ax a b = Inr r \<Longrightarrow> length (data r) = prod_list (shape r)"
  unfolding reduce_error_def
  by (auto split: if_splits dest!: bind_r_Inr dest: nanmean_wf simp: np_map_def)

lemma concat_nth_chunk:
  "\<forall>xs \<in> set xss. length xs = m \<Longrightarrow> i < length xss \<Longrightarrow>
     take m (drop (i * m) (concat xss)) = xss ! i"
proof (induction xss arbitrary: i)
  case Nil then show ?case by simp
next
  case (Cons xs xss)
  show ?case
  proof (cases i)
    case 0 then show ?thesis using Cons.prems by simp
  next
    case (Suc j)
    then show ?thesis using Cons.prems Cons.IH[of j] by simp
  qed
qed

lemma np_array_index:
  assumes "np_array me = Inr res" "\<forall>a \<in> set me. length (data a) = prod_list (shape a)"
  shows "shape res \<noteq> [] \<and> hd (shape res) = length me
         \<and> (\<forall>i<length me. index0 (int i) res = Inr (me ! i))"
proof (cases me)
  case Nil then show ?thesis using assms by (auto simp: np_array_def)
next
  case (Cons a as)
  then have all: "\<forall>b \<in> set me. shape b = shape a"
    and res: "res = NDArray (length me # shape a) (concat (map data me))"
    using assms(1) by (auto simp: np_array_def list_all_iff split: if_splits)
  have len: "\<forall>xs \<in> set (map data me). length xs = prod_list (shape a)"
    using all assms(2) by auto
  have "\<And>i. i < length me \<Longrightarrow> index0 (int i) res = Inr (me ! i)"
  proof -
    fix i assume i: "i < length me"
    have "take (prod_list (shape a)) (drop (i * prod_list (shape a)) (concat (map data me))) = data (me ! i)"
      using concat_nth_chunk[OF len, of i] i by simp
    moreover have "shape (me ! i) = shape a" using all i by simp
    ultimately show "index0 (int i) res = Inr (me ! i)"
      using i res by (cases "me ! i") (simp add: index0_def)
  qed
  then show ?thesis using res by simp
qed

text \<open>
  C5: for a forecast array whose first axis has \<open>n_f\<close> lead steps and a valid array
  with one axis less, whose first axis has the length \<open>n_val\<close>: whenever
  \<open>forecast_error\<close> returns, its result has \<open>n_f\<close> entries along the first axis, and
  the entry at lead index \<open>f\<close> is the chosen reduction between \<open>valid[f:]\<close> and
  \<open>forecast[f, :n_val - f]\<close>, the valid series shifted forward by \<open>f\<close> steps and
  the forecast cut to the overlap.
\<close>

theorem forecast_error_lead_steps:
  assumes "shape forecast = n_f # sf" "shape valid = n_val # sv" "length sf = Suc (length sv)"
    and "forecast_error forecast valid method ax = Inr res"
  shows "shape res \<noteq> [] \<and> hd (shape res) = n_f
       \<and> (\<forall>f<n_f. \<exists>v fc. slice_from (int f) valid = Inr v
              \<and> bind_r (index0 (int f) forecast) (slice_to (int n_val - int f)) = Inr fc
              \<and> index0 (int f) res = reduce_error method ax v fc)"
proof -
  let ?step = "\<lambda>f. bind_r (slice_from (int f) valid)
                 (\<lambda>v. bind_r (bind_r (index0 (int f) forecast) (slice_to (int n_val - int f)))
                    (\<lambda>fc. reduce_error method ax v fc))"
  have "bind_r (map_r ?step [0..<n_f]) np_array = Inr res"
    using assms by (auto simp: forecast_error_def split: if_splits)
  then obtain me where me: "map_r ?step [0..<n_f] = Inr me" and arr: "np_array me = Inr res"
    by (auto dest!: bind_r_Inr)
  have lm: "length me = n_f" and st: "\<forall>f<n_f. ?step f = Inr (me ! f)"
    using map_r_Inr_nth[OF me] by auto
  have parts: "\<forall>f<n_f. \<exists>v fc. slice_from (int f) valid = Inr v
              \<and> bind_r (index0 (int f) forecast) (slice_to (int n_val - int f)) = Inr fc
              \<and> reduce_error method ax v fc = Inr (me ! f)"
  proof (intro allI impI)
    fix f assume "f < n_f"
    then have "?step f = Inr (me ! f)" using st by simp
    then show "\<exists>v fc. slice_from (int f) valid = Inr v
              \<and> bind_r (index0 (int f) forecast) (slice_to (int n_val - int f)) = Inr fc
              \<and> reduce_error method ax v fc = Inr (me ! f)"
      by (auto dest!: bind_r_Inr)
  qed
  have wf: "\<forall>a \<in> set me. length (data a) = prod_list (shape a)"
  proof
    fix a assume "a \<in> set me"
    then obtain f where f: "f < n_f" "a = me ! f" using lm by (auto simp: in_set_conv_nth)
    then obtain v fc where "reduce_error method ax v fc = Inr a" using parts by blast
    then show "length (data a) = prod_list (shape a)" by (rule reduce_error_wf)
  qed
  have idx: "shape res \<noteq> [] \<and> hd (shape res) = length me
         \<and> (\<forall>i<length me. index0 (int i) res = Inr (me ! i))"
    using np_array_index[OF arr wf] .
  show ?thesis
  proof (intro conjI allI impI)
    show "shape res \<noteq> []" using idx by simp
    show "hd (shape res) = n_f" using idx lm by simp
    fix f assume f: "f < n_f"
    then obtain v fc where p: "slice_from (int f) valid = Inr v"
        "bind_r (index0 (int f) forecast) (slice_to (int n_val - int f)) = Inr fc"
        "reduce_error method ax v fc = Inr (me ! f)"
      using parts by blast
    moreover have "index0 (int f) res = Inr (me ! f)" using idx lm f by simp
    ultimately show "\<exists>v fc. slice_from (int f) valid = Inr v
              \<and> bind_r (index0 (int f) forecast) (slice_to (int n_val - int f)) = Inr fc
              \<and> index0 (int f) res = reduce_error method ax v fc"
      by auto
  qed
qed

theorem forecast_error_lead_steps_witness:
  "forecast_error (NDArray [2, 3] [Num 1, Num 2, Num 3, Num 4, Num 5, Num 6])
     (NDArray [3] [Num 1, Num 2, Num 4]) ''mae'' AxNone = Inr (NDArray [2] [Num (1 / 3), Num (3 / 2)])
   \<and> (\<exists>v fc. slice_from 1 (NDArray [3] [Num 1, Num 2, Num 4]) = Inr v
          \<and> bind_r (index0 1 (NDArray [2, 3] [Num 1, Num 2, Num 3, Num 4, Num 5, Num 6]))
               (slice_to (3 - 1)) = Inr fc
          \<and> index0 1 (NDArray [2] [Num (1 / 3), Num (3 / 2)]) = reduce_error ''mae'' AxNone v fc)"
proof -
  let ?F = "NDArray [2, 3] [Num 1, Num 2, Num 3, Num 4, Num 5, Num 6]"
  let ?V = "NDArray [3] [Num 1, Num 2, Num 4]"
  have s0: "slice_from 0 ?V = Inr (NDArray [3] [Num 1, Num 2, Num 4])"
    by (simp add: slice_from_def slice_bound_def)
  have s1: "slice_from 1 ?V = Inr (NDArray [2] [Num 2, Num 4])"
    by (simp add: slice_from_def slice_bound_def)
  have f0: "bind_r (index0 0 ?F) (slice_to 3) = Inr (NDArray [3] [Num 1, Num 2, Num 3])"
    by (simp add: index0_def slice_to_def slice_bound_def)
  have f1: "bind_r (index0 1 ?F) (slice_to 2) = Inr (NDArray [2] [Num 4, Num 5])"
    by (simp add: index0_def slice_to_def slice_bound_def)
  have r0: "reduce_error ''mae'' AxNone (NDArray [3] [Num 1, Num 2, Num 4]) (NDArray [3] [Num 1, Num 2, Num 3])
            = Inr (NDArray [] [Num (1 / 3)])"
    using reduce_error_flat[of "''mae''" "NDArray [3] [Num 1, Num 2, Num 4]" "NDArray [3] [Num 1, Num 2, Num 3]"]
    by (simp add: methods_def plain_metric_def)
  have r1: "reduce_error ''mae'' AxNone (NDArray [2] [Num 2, Num 4]) (NDArray [2] [Num 4, Num 5])
            = Inr (NDArray [] [Num (3 / 2)])"
    using reduce_error_flat[of "''mae''" "NDArray [2] [Num 2, Num 4]" "NDArray [2] [Num 4, Num 5]"]
    by (simp add: methods_def plain_metric_def)
  have h: "forecast_error ?F ?V ''mae'' AxNone = Inr (NDArray [2] [Num (1 / 3), Num (3 / 2)])"
    by (simp add: forecast_error_def methods_def upt_2' s0 s1 f0 f1 r0 r1 np_array_def)
  have "\<forall>f<2. \<exists>v fc. slice_from (int f) ?V = Inr v
          \<and> bind_r (index0 (int f) ?F) (slice_to (int 3 - int f)) = Inr fc
          \<and> index0 (int f) (NDArray [2] [Num (1 / 3), Num (3 / 2)]) = reduce_error ''mae'' AxNone v fc"
    using forecast_error_lead_steps[OF _ _ _ h, of 2 "[3]" 3 "[]"] by simp
  then have "\<exists>v fc. slice_from (int 1) ?V = Inr v
          \<and> bind_r (index0 (int 1) ?F) (slice_to (int 3 - int 1)) = Inr fc
          \<and> index0 (int 1) (NDArray [2] [Num (1 / 3), Num (3 / 2)]) = reduce_error ''mae'' AxNone v fc"
    by (metis one_less_numeral_iff semiring_norm(76))
  then show ?thesis using h by simp
qed


subsection \<open>The verification builder\<close>





















subsection \<open>Bounds of the orbital terms\<close>









subsection \<open>Broadcasting a column of days against a grid\<close>






lemma bs_col_grid: "broadcast_shapes [T, Suc 0, Suc 0] [a, b] = Some [T, a, b]"
  by (auto simp: broadcast_shapes_def pad_shape_def)













subsection \<open>The insolation, element by element\<close>










subsection \<open>The insolation at the perihelion\<close>














subsection \<open>Bounds of the insolation\<close>






subsection \<open>The caller's latitude array\<close>

lemma np_binary_col_grid_returns:
  "shape x = [T, Suc 0, Suc 0] \<Longrightarrow> shape y = [a, b] \<Longrightarrow> \<exists>r. np_binary g x y = Inr r"
  by (simp add: np_binary_def bs_col_grid)

lemma insolation_2d_store:
  assumes "shape (hp lat_p) = [a, b]" "shape (hp lon_p) = [a, b]"
  shows "snd (insolation hp dates lat_p lon_p S)
         = hp(lat_p := np_map (lift1 (\<lambda>x. x * (pi / 180))) (hp lat_p))"
proof -
  obtain r where r: "np_binary fadd (col3 (map day_of_year dates))
                       (np_map (lift1 (\<lambda>x. x / 360)) (hp lon_p)) = Inr r"
    using np_binary_col_grid_returns[of "col3 (map day_of_year dates)" "length dates"
        "np_map (lift1 (\<lambda>x. x / 360)) (hp lon_p)" a b fadd] assms(2)
    by (auto simp: col3_def np_map_def)
  show ?thesis using assms by (simp add: insolation_def ndim_def Let_def r)
qed

lemma insolation_1d_store:
  "ndim (hp lat_p) = 1 \<Longrightarrow> snd (insolation hp dates lat_p lon_p S) = hp"
  by (simp add: insolation_def Let_def split: sum.splits)

lemma scaled_differs:
  assumes "Num r \<in> set (data x)" "r \<noteq> 0"
  shows "np_map (lift1 (\<lambda>x. x * (pi / 180))) x \<noteq> x"
proof
  assume e: "np_map (lift1 (\<lambda>x. x * (pi / 180))) x = x"
  then have "map (lift1 (\<lambda>x. x * (pi / 180))) (data x) = data x"
    by (metis ndarray.sel(2) np_map_def)
  then have "\<forall>v \<in> set (data x). lift1 (\<lambda>x. x * (pi / 180)) v = v"
    by (metis map_eq_conv map_ident)
  then have "r * (pi / 180) = r" using assms(1) by fastforce
  then have "r * (pi / 180 - 1) = 0" by (simp add: algebra_simps)
  moreover have "pi / 180 - 1 \<noteq> 0" using pi_less_4 by simp
  ultimately show False using assms(2) by simp
qed

text \<open>
  C10: called with a two-dimensional \<open>lat\<close> (and a \<open>lon\<close> of its shape),
  \<open>insolation\<close> leaves the caller's \<open>lat\<close> array with every element multiplied by
  \<open>pi / 180\<close>, so that the array does not hold its original values (it has an element
  other than zero and not-a-number); called with a one-dimensional \<open>lat\<close>, it leaves the
  caller's arrays as they were.
\<close>

theorem insolation_scales_lat_in_place:
  "(shape (hp lat_p) = [a, b] \<and> shape (hp lon_p) = [a, b] \<longrightarrow>
      snd (insolation hp dates lat_p lon_p S)
        = hp(lat_p := np_map (lift1 (\<lambda>x. x * (pi / 180))) (hp lat_p))
      \<and> ((\<exists>r. Num r \<in> set (data (hp lat_p)) \<and> r \<noteq> 0) \<longrightarrow>
            snd (insolation hp dates lat_p lon_p S) lat_p \<noteq> hp lat_p))
   \<and> (ndim (hp lat_p) = 1 \<longrightarrow> snd (insolation hp dates lat_p lon_p S) = hp)"
  using insolation_2d_store[of hp lat_p a b lon_p dates S] insolation_1d_store[of hp lat_p dates lon_p S]
    scaled_differs[of _ "hp lat_p"]
  by auto

theorem insolation_scales_lat_in_place_witness:
  "snd (insolation ((\<lambda>_. NDArray [0] [])(0 := NDArray [1, 1] [Num 180], 1 := NDArray [1, 1] [Num 0]))
         [] 0 1 1) 0 = NDArray [1, 1] [Num pi]
   \<and> snd (insolation ((\<lambda>_. NDArray [0] [])(0 := NDArray [1] [Num 180], 1 := NDArray [1] [Num 0]))
         [] 0 1 1) = (\<lambda>_. NDArray [0] [])(0 := NDArray [1] [Num 180], 1 := NDArray [1] [Num 0])"
  using insolation_scales_lat_in_place[of
      "(\<lambda>_. NDArray [0] [])(0 := NDArray [1, 1] [Num 180], 1 := NDArray [1, 1] [Num 0])" 0 1 1 1 "[]" 1]
    insolation_scales_lat_in_place[of
      "(\<lambda>_. NDArray [0] [])(0 := NDArray [1] [Num 180], 1 := NDArray [1] [Num 0])" 0 1 1 1 "[]" 1]
  by (simp add: ndim_def np_map_def)


subsection \<open>Configuration errors\<close>

text \<open>
  C8: an invalid combination of shapes or parameters gives a \<open>ValueError\<close> and nothing
  else: \<open>insolation\<close> when \<open>lat\<close> and \<open>lon\<close> differ in their number of dimensions,
  or are both two-dimensional with different shapes, and then the caller's arrays are as
  they were; \<open>verification_from_series\<close> and \<open>verification_from_samples\<close> when
  \<open>forecast_steps\<close> or \<open>dt\<close> is below 1; \<open>forecast_error\<close>,
  \<open>persistence_error\<close>, \<open>climo_error\<close> and \<open>monthly_climo_error\<close> when the method is
  none of \<open>'mse'\<close>, \<open>'mae'\<close>, \<open>'rmse'\<close>.
\<close>

theorem configuration_errors:
  "(ndim (hp lat_p) \<noteq> ndim (hp lon_p) \<longrightarrow>
      insolation hp dates lat_p lon_p S = (Inl ValueError, hp))
   \<and> (ndim (hp lat_p) = 2 \<and> ndim (hp lon_p) = 2 \<and> shape (hp lat_p) \<noteq> shape (hp lon_p) \<longrightarrow>
      insolation hp dates lat_p lon_p S = (Inl ValueError, hp))
   \<and> (forecast_steps < 1 \<or> dt < 1 \<longrightarrow>
      verification_from_series ds all_ds forecast_steps dt = Inl ValueError
      \<and> verification_from_samples dw all_dw forecast_steps dt = Inl ValueError)
   \<and> (method \<notin> set methods \<longrightarrow>
      forecast_error forecast valid method ax = Inl ValueError
      \<and> persistence_error predictors' valid n_fhour method ax = Inl ValueError
      \<and> climo_error valid n_fhour method ax = Inl ValueError
      \<and> monthly_climo_error month_of da val_set n_opt method return_da = Inl ValueError)"
  by (auto simp: insolation_def verification_from_series_def verification_from_samples_def
      forecast_error_def persistence_error_def climo_error_def monthly_climo_error_def)

theorem configuration_errors_witness:
  "insolation ((\<lambda>_. NDArray [2] [Num 0, Num 0])(1 := NDArray [1, 1] [Num 0])) [] 0 1 1
     = (Inl ValueError, (\<lambda>_. NDArray [2] [Num 0, Num 0])(1 := NDArray [1, 1] [Num 0]))
   \<and> insolation ((\<lambda>_. NDArray [1, 2] [Num 0, Num 0])(1 := NDArray [2, 1] [Num 0, Num 0])) [] 0 1 1
     = (Inl ValueError, (\<lambda>_. NDArray [1, 2] [Num 0, Num 0])(1 := NDArray [2, 1] [Num 0, Num 0]))
   \<and> verification_from_series \<lparr>sample = [0], grid = [1], predictors = [[Num 1]]\<rparr> None 0 6
     = Inl ValueError
   \<and> verification_from_samples
       \<lparr>w_sample = [0], w_grid = [1], w_time_step = 1, w_targets = [[[Num 1]]]\<rparr> None 1 0
     = Inl ValueError
   \<and> forecast_error (NDArray [1] [Num 1]) (NDArray [1] [Num 1]) ''max'' AxNone = Inl ValueError
   \<and> persistence_error (NDArray [1] [Num 1]) (NDArray [1] [Num 1]) 1 ''max'' AxNone = Inl ValueError
   \<and> climo_error (NDArray [1] [Num 1]) 1 ''max'' AxNone = Inl ValueError
   \<and> monthly_climo_error (\<lambda>t. 1) \<lparr>da_time = [0], da_grid = [1], da_fields = [[Num 1]]\<rparr>
        [0] None ''max'' False = Inl ValueError"
  using configuration_errors[of "(\<lambda>_. NDArray [2] [Num 0, Num 0])(1 := NDArray [1, 1] [Num 0])"
      0 1 "[]" 1 0 6 "\<lparr>sample = [0], grid = [1], predictors = [[Num 1]]\<rparr>" None _ _
      "''max''" "NDArray [1] [Num 1]" "NDArray [1] [Num 1]" AxNone "NDArray [1] [Num 1]" 1
      "\<lambda>t. 1" "\<lparr>da_time = [0], da_grid = [1], da_fields = [[Num 1]]\<rparr>" "[0]" None False]
    configuration_errors[of "(\<lambda>_. NDArray [1, 2] [Num 0, Num 0])(1 := NDArray [2, 1] [Num 0, Num 0])"
      0 1 "[]" 1 1 0 _ _
      "\<lparr>w_sample = [0], w_grid = [1], w_time_step = 1, w_targets = [[[Num 1]]]\<rparr>" None]
  by (simp add: ndim_def methods_def)

end
